theory Spec2Isabelle
  imports Main "HOL-Library.AList"
begin

section \<open>JavaScript values\<close>

text \<open>
  Request bodies and socket payloads are parsed JSON, so a field the handlers read is
  absent (\<open>undefined\<close>) or holds a JSON value. The handlers below use such a field in four
  ways only: as a \<open>Map\<close> key (SameValueZero), on one side of \<open>===\<close> against a string
  literal, in a truthiness test, and as a property key of a plain object. The primitive
  values are modelled; \<open>JNum n\<close> is the integer-valued number \<open>n\<close>. Objects and arrays
  compare by identity in JavaScript and are outside this fragment.
\<close>

datatype jsval = JUndefined | JNull | JBool bool | JNum int | JStr string

text \<open>ToBoolean.\<close>

fun truthy :: "jsval \<Rightarrow> bool" where
  "truthy JUndefined = False"
| "truthy JNull = False"
| "truthy (JBool b) = b"
| "truthy (JNum n) = (n \<noteq> 0)"
| "truthy (JStr s) = (s \<noteq> [])"

text \<open>Decimal rendering of an integer, as Number::toString prints a safe integer.\<close>

fun digits_of :: "nat \<Rightarrow> string" where
  "digits_of n =
     (if n < 10 then [char_of (48 + n)]
      else digits_of (n div 10) @ [char_of (48 + n mod 10)])"

definition number_to_string :: "int \<Rightarrow> string" where
  "number_to_string n = (if n < 0 then CHR ''-'' # digits_of (nat (- n)) else digits_of (nat n))"

text \<open>ToPropertyKey on a primitive: the string under which \<open>obj[v]\<close> reads and writes.\<close>

fun to_property_key :: "jsval \<Rightarrow> string" where
  "to_property_key JUndefined = ''undefined''"
| "to_property_key JNull = ''null''"
| "to_property_key (JBool b) = (if b then ''true'' else ''false'')"
| "to_property_key (JNum n) = number_to_string n"
| "to_property_key (JStr s) = s"

section \<open>Plain objects used as counters (routes/proctoring.js, \<open>breakdown\<close>)\<close>

text \<open>
  \<open>const breakdown={}\<close> is an ordinary object: it has no own properties, and its prototype
  is \<open>Object.prototype\<close>. A read \<open>breakdown[k]\<close> finds an own property first and an inherited
  one otherwise; the inherited ones are the built-in methods and the accessor
  \<open>__proto__\<close>. The own properties of the object are a map from keys to the values the
  handler can store there: a number, or a string produced by \<open>+\<close> on a non-number.
\<close>

datatype propval = PNum nat | PStr string

type_synonym plain_object = "string \<rightharpoonup> propval"

definition object_prototype_methods :: "string list" where
  "object_prototype_methods =
     [''constructor'', ''__defineGetter__'', ''__defineSetter__'', ''hasOwnProperty'',
      ''__lookupGetter__'', ''__lookupSetter__'', ''isPrototypeOf'',
      ''propertyIsEnumerable'', ''toString'', ''valueOf'', ''toLocaleString'']"

text \<open>What \<open>obj[k]\<close> evaluates to.\<close>

datatype lookup =
    Absent
  | Own propval
  | BuiltinFunction string
  | ObjectPrototype

definition object_get :: "plain_object \<Rightarrow> string \<Rightarrow> lookup" where
  "object_get obj k =
     (if k = ''__proto__'' then ObjectPrototype
      else case obj k of
        Some v \<Rightarrow> Own v
      | None \<Rightarrow> if k \<in> set object_prototype_methods then BuiltinFunction k else Absent)"

text \<open>
  The string a built-in function converts to under \<open>+\<close> (V8 prints the function's name,
  which is \<open>Object\<close> for \<open>constructor\<close>).
\<close>

definition function_source :: "string \<Rightarrow> string" where
  "function_source k =
     ''function '' @ (if k = ''constructor'' then ''Object'' else k) @ ''() { [native code] }''"

text \<open>\<open>(x||0)+1\<close>: a falsy \<open>x\<close> counts as 0, a number is incremented, anything else is
  converted to a string and \<open>1\<close> is appended to it.\<close>

fun or_zero_plus_one :: "lookup \<Rightarrow> propval" where
  "or_zero_plus_one Absent = PNum 1"
| "or_zero_plus_one (Own (PNum n)) = PNum (n + 1)"
| "or_zero_plus_one (Own (PStr s)) = (if s = [] then PNum 1 else PStr (s @ ''1''))"
| "or_zero_plus_one (BuiltinFunction k) = PStr (function_source k @ ''1'')"
| "or_zero_plus_one ObjectPrototype = PStr ''[object Object]1''"

text \<open>
  \<open>obj[k] = v\<close> for a primitive \<open>v\<close>: an own property is created or overwritten, except
  under the key \<open>__proto__\<close>, whose inherited setter ignores a value that is neither an
  object nor \<open>null\<close>.
\<close>

definition object_set :: "plain_object \<Rightarrow> string \<Rightarrow> propval \<Rightarrow> plain_object" where
  "object_set obj k v = (if k = ''__proto__'' then obj else obj(k \<mapsto> v))"

section \<open>Proctoring event pipeline (routes/proctoring.js)\<close>

text \<open>
  The router keeps three \<open>Map\<close>s: the event log, the registered sessions and the identity
  checks of each interview id. A key of these maps is the \<open>interviewId\<close> of a request
  body, or the string of the path for the routes with \<open>:interviewId\<close>. Each handler is a
  function from the state to the new state and the response. The list
  \<open>GET /dashboard/sessions\<close>, which takes no id, is not modelled.
\<close>

record event =
  eventType :: jsval
  severity :: jsval
  details :: jsval
  timestamp :: nat

text \<open>
  \<open>new Date()\<close> is a reading of the clock, in milliseconds; each handler call takes it as
  the argument \<open>now\<close>. \<open>startTime||new Date()\<close> keeps a truthy value of the request or
  takes the clock.
\<close>

datatype start_time = Supplied jsval | Clock nat

record active_session =
  as_interviewId :: jsval
  as_candidateName :: jsval
  as_candidateEmail :: jsval
  as_recruiterName :: jsval
  as_startTime :: start_time
  as_lastActivity :: nat
  as_status :: string
  as_eventCount :: nat
  as_endTime :: "nat option"

text \<open>
  An identity check stores the score the verification service returned. The handler
  later prints it with \<open>result.score?.toFixed(3)||'N/A'\<close>, so a score is kept as the case
  this expression distinguishes: \<open>undefined\<close> and \<open>null\<close> print \<open>N/A\<close>, a number comes
  with the text \<open>toFixed(3)\<close> gives for it, and on any other value the call of \<open>toFixed\<close>
  throws.
\<close>

datatype verifier_score = ScoreUndefined | ScoreNull | ScoreNumber string | ScoreOther jsval

record verification_record =
  v_timestamp :: nat
  v_userId :: jsval
  v_verified :: jsval
  v_score :: verifier_score
  v_liveness :: jsval

text \<open>The three module-level \<open>Map\<close>s.\<close>

record pstate =
  proctoringEvents :: "jsval \<rightharpoonup> event list"
  activeSessions :: "jsval \<rightharpoonup> active_session"
  identityVerifications :: "jsval \<rightharpoonup> verification_record list"

definition initial_pstate :: pstate where
  "initial_pstate =
     \<lparr>proctoringEvents = Map.empty, activeSessions = Map.empty,
      identityVerifications = Map.empty\<rparr>"

text \<open>An HTTP response: the status code and the JSON body.\<close>

record 'a response =
  http_status :: nat
  body :: 'a

text \<open>\<open>proctoringEvents.get(id)||[]\<close>: an array is truthy, so the default is taken exactly
  when the key is absent.\<close>

definition events_or_empty :: "pstate \<Rightarrow> jsval \<Rightarrow> event list" where
  "events_or_empty st k = (case proctoringEvents st k of Some es \<Rightarrow> es | None \<Rightarrow> [])"

definition verifications_or_empty :: "pstate \<Rightarrow> jsval \<Rightarrow> verification_record list" where
  "verifications_or_empty st k =
     (case identityVerifications st k of Some vs \<Rightarrow> vs | None \<Rightarrow> [])"

subsection \<open>POST /verify-identity\<close>

text \<open>
  The handler awaits the face-verification service. What the service does is an input of
  the model: the request fails (\<open>fetch\<close> or \<open>response.json()\<close> throws), the reply is the
  JSON \<open>null\<close>, whose fields cannot be read, or the reply is a value whose fields are read.
  An exception anywhere in the \<open>try\<close> block is answered 503; what was written before it
  stays written.
\<close>

record verifier_result =
  r_verified :: jsval
  r_score :: verifier_score
  r_liveness :: jsval
  r_reason :: jsval

datatype verifier_outcome = Unreachable | RepliedNull | Replied verifier_result

record verify_request =
  vq_interviewId :: jsval
  vq_userId :: jsval
  vq_image :: jsval

datatype verify_body =
    VerifyFailed string
  | VerifyDone jsval verifier_score jsval jsval

definition score_text :: "verifier_score \<Rightarrow> string" where
  "score_text sc = (case sc of ScoreNumber t \<Rightarrow> (if t = [] then ''N/A'' else t) | _ \<Rightarrow> ''N/A'')"

definition verify_identity ::
  "nat \<Rightarrow> verifier_outcome \<Rightarrow> verify_request \<Rightarrow> pstate \<Rightarrow> pstate \<times> verify_body response" where
  "verify_identity now outcome rq st =
     (if \<not> truthy (vq_userId rq) \<or> \<not> truthy (vq_image rq) then
        (st, \<lparr>http_status = 400, body = VerifyFailed ''Missing userId or image''\<rparr>)
      else
        let k = vq_interviewId rq;
            unavailable =
              \<lparr>http_status = 503,
               body = VerifyFailed ''Identity verification service unavailable''\<rparr>
        in case outcome of
             Unreachable \<Rightarrow> (st, unavailable)
           | RepliedNull \<Rightarrow>
               (st\<lparr>identityVerifications :=
                     (identityVerifications st)(k \<mapsto> verifications_or_empty st k)\<rparr>,
                unavailable)
           | Replied r \<Rightarrow>
               let entry = \<lparr>v_timestamp = now, v_userId = vq_userId rq,
                          v_verified = r_verified r, v_score = r_score r,
                          v_liveness = r_liveness r\<rparr>;
                   st1 = st\<lparr>identityVerifications :=
                            (identityVerifications st)
                              (k \<mapsto> verifications_or_empty st k @ [entry])\<rparr>;
                   replied = \<lparr>http_status = 200,
                           body = VerifyDone (r_verified r) (r_score r) (r_liveness r)
                                    (r_reason r)\<rparr>
               in if truthy (r_verified r) then (st1, replied)
                  else (case r_score r of
                    ScoreOther v \<Rightarrow>
                      (st1\<lparr>proctoringEvents :=
                             (proctoringEvents st1)(k \<mapsto> events_or_empty st1 k)\<rparr>,
                       unavailable)
                  | sc \<Rightarrow>
                      (st1\<lparr>proctoringEvents :=
                             (proctoringEvents st1)
                               (k \<mapsto> events_or_empty st1 k @
                                  [\<lparr>eventType = JStr ''identity_mismatch'',
                                    severity = JStr ''critical'',
                                    details =
                                      JStr (''Face does not match registered user. Score: ''
                                            @ score_text sc),
                                    timestamp = now\<rparr>])\<rparr>,
                       replied)))"

subsection \<open>GET /:interviewId/identity-checks\<close>

record checks_reply =
  total :: nat
  passed :: nat
  failed :: nat
  verifications :: "verification_record list"

definition get_identity_checks :: "string \<Rightarrow> pstate \<Rightarrow> pstate \<times> checks_reply response" where
  "get_identity_checks ident st =
     (let vs = verifications_or_empty st (JStr ident)
      in (st, \<lparr>http_status = 200,
               body = \<lparr>total = length vs,
                       passed = length (filter (\<lambda>v. truthy (v_verified v)) vs),
                       failed = length (filter (\<lambda>v. \<not> truthy (v_verified v)) vs),
                       verifications = vs\<rparr>\<rparr>))"

subsection \<open>POST /event\<close>

record event_request =
  rq_interviewId :: jsval
  rq_eventType :: jsval
  rq_severity :: jsval
  rq_details :: jsval

record event_reply =
  success :: bool
  stored :: event

definition post_event :: "nat \<Rightarrow> event_request \<Rightarrow> pstate \<Rightarrow> pstate \<times> event_reply response" where
  "post_event now rq st =
     (let k = rq_interviewId rq;
          ev = \<lparr>eventType = rq_eventType rq, severity = rq_severity rq,
                details = rq_details rq, timestamp = now\<rparr>;
          st1 = st\<lparr>proctoringEvents := (proctoringEvents st)(k \<mapsto> events_or_empty st k @ [ev])\<rparr>;
          st2 = (case activeSessions st1 k of
                   None \<Rightarrow> st1
                 | Some s \<Rightarrow>
                     st1\<lparr>activeSessions := (activeSessions st1)
                            (k \<mapsto> s\<lparr>as_lastActivity := now, as_eventCount := as_eventCount s + 1\<rparr>)\<rparr>)
      in (st2, \<lparr>http_status = 200, body = \<lparr>success = True, stored = ev\<rparr>\<rparr>))"

subsection \<open>GET /:interviewId\<close>

definition get_events :: "string \<Rightarrow> pstate \<Rightarrow> pstate \<times> event list response" where
  "get_events ident st = (st, \<lparr>http_status = 200, body = events_or_empty st (JStr ident)\<rparr>)"

subsection \<open>GET /:interviewId/score\<close>

text \<open>The \<open>switch\<close> on \<open>event.severity\<close> compares with \<open>===\<close>; no case matching leaves the
  score as it is.\<close>

definition deduct :: "jsval \<Rightarrow> int \<Rightarrow> int" where
  "deduct sev score =
     (if sev = JStr ''low'' then score - 2
      else if sev = JStr ''medium'' then score - 5
      else if sev = JStr ''high'' then score - 10
      else if sev = JStr ''critical'' then score - 20
      else score)"

text \<open>One iteration of \<open>events.forEach\<close>, on the pair of locals \<open>(score, breakdown)\<close>.\<close>

definition score_step :: "event \<Rightarrow> int \<times> plain_object \<Rightarrow> int \<times> plain_object" where
  "score_step ev acc =
     (let k = to_property_key (eventType ev);
          breakdown = object_set (snd acc) k (or_zero_plus_one (object_get (snd acc) k))
      in (deduct (severity ev) (fst acc), breakdown))"

record score_reply =
  score :: int
  totalEvents :: nat
  breakdown :: plain_object

definition computeIntegrityScore :: "event list \<Rightarrow> score_reply" where
  "computeIntegrityScore events =
     (let acc = fold score_step events (100, Map.empty)
      in \<lparr>score = max 0 (fst acc), totalEvents = length events, breakdown = snd acc\<rparr>)"

definition get_score :: "string \<Rightarrow> pstate \<Rightarrow> pstate \<times> score_reply response" where
  "get_score ident st =
     (st, \<lparr>http_status = 200, body = computeIntegrityScore (events_or_empty st (JStr ident))\<rparr>)"

subsection \<open>POST /session and DELETE /session/:interviewId\<close>

record session_request =
  sq_interviewId :: jsval
  sq_candidateName :: jsval
  sq_candidateEmail :: jsval
  sq_recruiterName :: jsval
  sq_startTime :: jsval

definition post_session :: "nat \<Rightarrow> session_request \<Rightarrow> pstate \<Rightarrow> pstate \<times> bool response" where
  "post_session now rq st =
     (st\<lparr>activeSessions := (activeSessions st)
           (sq_interviewId rq \<mapsto>
              \<lparr>as_interviewId = sq_interviewId rq,
               as_candidateName = sq_candidateName rq,
               as_candidateEmail = sq_candidateEmail rq,
               as_recruiterName = sq_recruiterName rq,
               as_startTime =
                 (if truthy (sq_startTime rq) then Supplied (sq_startTime rq) else Clock now),
               as_lastActivity = now,
               as_status = ''active'',
               as_eventCount = 0,
               as_endTime = None\<rparr>)\<rparr>,
      \<lparr>http_status = 200, body = True\<rparr>)"

definition delete_session :: "nat \<Rightarrow> string \<Rightarrow> pstate \<Rightarrow> pstate \<times> bool response" where
  "delete_session now ident st =
     ((case activeSessions st (JStr ident) of
         None \<Rightarrow> st
       | Some s \<Rightarrow>
           st\<lparr>activeSessions := (activeSessions st)
                 (JStr ident \<mapsto> s\<lparr>as_status := ''completed'', as_endTime := Some now\<rparr>)\<rparr>),
      \<lparr>http_status = 200, body = True\<rparr>)"

subsection \<open>GET /dashboard/:interviewId\<close>

datatype dashboard_body =
    DashboardError string
  | DashboardDetails active_session "event list" nat

definition get_dashboard :: "string \<Rightarrow> pstate \<Rightarrow> pstate \<times> dashboard_body response" where
  "get_dashboard ident st =
     (case activeSessions st (JStr ident) of
        None \<Rightarrow> (st, \<lparr>http_status = 404, body = DashboardError ''Session not found''\<rparr>)
      | Some session \<Rightarrow>
          (let events = events_or_empty st (JStr ident)
           in (st, \<lparr>http_status = 200,
                    body = DashboardDetails session events (length events)\<rparr>)))"

section \<open>The deduction table of the specification\<close>

text \<open>Low 2, medium 5, high 10, critical 20; no other severity is in the table.\<close>

definition severity_weight :: "jsval \<Rightarrow> int" where
  "severity_weight sev =
     (if sev = JStr ''low'' then 2
      else if sev = JStr ''medium'' then 5
      else if sev = JStr ''high'' then 10
      else if sev = JStr ''critical'' then 20
      else 0)"

definition total_deduction :: "event list \<Rightarrow> int" where
  "total_deduction events = sum_list (map (\<lambda>e. severity_weight (severity e)) events)"

text \<open>Recording a sequence of events for one session: one \<open>POST /event\<close> per event, in
  order, each at the time the event carries.\<close>

definition request_of :: "jsval \<Rightarrow> event \<Rightarrow> event_request" where
  "request_of k ev =
     \<lparr>rq_interviewId = k, rq_eventType = eventType ev, rq_severity = severity ev,
      rq_details = details ev\<rparr>"

definition record_events :: "jsval \<Rightarrow> event list \<Rightarrow> pstate \<Rightarrow> pstate" where
  "record_events k evs st =
     fold (\<lambda>ev s. fst (post_event (timestamp ev) (request_of k ev) s)) evs st"

section \<open>Live interview rooms (socket/handlers.js)\<close>

text \<open>
  \<open>liveInterviewRooms\<close> is a \<open>Map\<close> from the session id of a message to a room object. A
  room's \<open>participants\<close> and \<open>screenShares\<close> are \<open>Map\<close>s keyed by \<open>socket.id\<close>; they keep
  insertion order, which \<open>Array.from\<close> exposes in the snapshot, so they are association
  lists: \<open>set\<close> on a present key replaces the value in place and appends otherwise
  (\<^const>\<open>AList.update\<close>), \<open>delete\<close> removes the entry (\<^const>\<open>AList.delete\<close>). A socket id
  is the 20-character id the transport generates. Broadcasts to other sockets carry no
  state and are not part of the model; the reply \<open>room-state\<close> to the joining socket is.
  The handlers that write to the registry are modelled, except \<open>camera-status-update\<close>,
  which rewrites a field of a participant already in the map, and the timer of
  \<open>end-live-interview\<close>, which deletes the room 30 seconds later.
\<close>

text \<open>\<open>cameras || { primary: true, secondary: false }\<close>.\<close>

datatype cameras = CameraFlags bool bool | CamerasSupplied jsval

record participant =
  p_id :: jsval
  p_socketId :: string
  p_userName :: jsval
  p_role :: jsval
  p_cameras :: cameras
  p_audioEnabled :: bool
  p_videoEnabled :: bool
  p_joinedAt :: nat

record cursor_entry =
  cursorPosition :: jsval
  selection :: jsval

record code_state =
  code :: jsval
  language :: jsval
  cursorPositions :: "(string \<times> cursor_entry) list"

record screen_share =
  streamType :: jsval
  ss_startedAt :: nat

record room_settings =
  enableChat :: bool
  enableScreenShare :: bool
  enableCodeExecution :: bool

record room =
  participants :: "(string \<times> participant) list"
  codeState :: code_state
  screenShares :: "(string \<times> screen_share) list"
  whiteboard :: "jsval list"
  settings :: room_settings

record sstate =
  liveInterviewRooms :: "jsval \<rightharpoonup> room"
  proctorDashboardSockets :: "string set"

definition initial_sstate :: sstate where
  "initial_sstate = \<lparr>liveInterviewRooms = Map.empty, proctorDashboardSockets = {}\<rparr>"

text \<open>The room object a first join creates.\<close>

definition new_room :: room where
  "new_room =
     \<lparr>participants = [],
      codeState = \<lparr>code = JStr [], language = JStr ''javascript'', cursorPositions = []\<rparr>,
      screenShares = [],
      whiteboard = [],
      settings = \<lparr>enableChat = True, enableScreenShare = True, enableCodeExecution = True\<rparr>\<rparr>"

text \<open>\<open>map.has(k)\<close> on an association list.\<close>

definition has_key :: "('k \<times> 'v) list \<Rightarrow> 'k \<Rightarrow> bool" where
  "has_key al k = (k \<in> fst ` set al)"

subsection \<open>join-live-interview\<close>

record join_data =
  jd_sessionId :: jsval
  jd_participantId :: jsval
  jd_userName :: jsval
  jd_role :: jsval
  jd_cameras :: jsval

text \<open>The payload of \<open>room-state\<close>; it has these four fields.\<close>

record room_state =
  rs_participants :: "participant list"
  rs_codeState :: code_state
  rs_screenShares :: "(string \<times> screen_share) list"
  rs_settings :: room_settings

definition room_state_of :: "room \<Rightarrow> room_state" where
  "room_state_of r =
     \<lparr>rs_participants = map snd (participants r),
      rs_codeState = codeState r,
      rs_screenShares = screenShares r,
      rs_settings = settings r\<rparr>"

definition join_live_interview :: "nat \<Rightarrow> string \<Rightarrow> join_data \<Rightarrow> sstate \<Rightarrow> sstate \<times> room_state" where
  "join_live_interview now sock d st =
     (let sessionId = jd_sessionId d;
          r0 = (case liveInterviewRooms st sessionId of None \<Rightarrow> new_room | Some r \<Rightarrow> r);
          p = \<lparr>p_id = jd_participantId d,
               p_socketId = sock,
               p_userName = jd_userName d,
               p_role = jd_role d,
               p_cameras = (if truthy (jd_cameras d) then CamerasSupplied (jd_cameras d)
                            else CameraFlags True False),
               p_audioEnabled = True,
               p_videoEnabled = True,
               p_joinedAt = now\<rparr>;
          r1 = r0\<lparr>participants := AList.update sock p (participants r0)\<rparr>
      in (st\<lparr>liveInterviewRooms := (liveInterviewRooms st)(sessionId \<mapsto> r1)\<rparr>,
          room_state_of r1))"

subsection \<open>leave-live-interview and disconnect\<close>

text \<open>The two statements both handlers run on a room that has the socket.\<close>

definition remove_socket :: "string \<Rightarrow> room \<Rightarrow> room" where
  "remove_socket sock r =
     r\<lparr>participants := AList.delete sock (participants r),
       screenShares := AList.delete sock (screenShares r)\<rparr>"

definition handleLiveInterviewLeave :: "string \<Rightarrow> jsval \<Rightarrow> sstate \<Rightarrow> sstate" where
  "handleLiveInterviewLeave sock sessionId st =
     (case liveInterviewRooms st sessionId of
        None \<Rightarrow> st
      | Some r \<Rightarrow>
          if has_key (participants r) sock
          then st\<lparr>liveInterviewRooms := (liveInterviewRooms st)(sessionId \<mapsto> remove_socket sock r)\<rparr>
          else st)"

text \<open>The loop over all rooms visits each entry once and changes those that have the
  socket.\<close>

definition disconnect :: "string \<Rightarrow> sstate \<Rightarrow> sstate" where
  "disconnect sock st =
     st\<lparr>liveInterviewRooms :=
          (\<lambda>sessionId.
             case liveInterviewRooms st sessionId of
               None \<Rightarrow> None
             | Some r \<Rightarrow>
                 Some (if has_key (participants r) sock then remove_socket sock r else r)),
        proctorDashboardSockets := proctorDashboardSockets st - {sock}\<rparr>"

subsection \<open>Screen sharing\<close>

definition start_screen_share :: "nat \<Rightarrow> string \<Rightarrow> jsval \<Rightarrow> jsval \<Rightarrow> sstate \<Rightarrow> sstate" where
  "start_screen_share now sock sessionId stype st =
     (case liveInterviewRooms st sessionId of
        None \<Rightarrow> st
      | Some r \<Rightarrow>
          st\<lparr>liveInterviewRooms := (liveInterviewRooms st)
                (sessionId \<mapsto>
                   r\<lparr>screenShares :=
                        AList.update sock \<lparr>streamType = stype, ss_startedAt = now\<rparr>
                          (screenShares r)\<rparr>)\<rparr>)"

definition stop_screen_share :: "string \<Rightarrow> jsval \<Rightarrow> sstate \<Rightarrow> sstate" where
  "stop_screen_share sock sessionId st =
     (case liveInterviewRooms st sessionId of
        None \<Rightarrow> st
      | Some r \<Rightarrow>
          st\<lparr>liveInterviewRooms := (liveInterviewRooms st)
                (sessionId \<mapsto> r\<lparr>screenShares := AList.delete sock (screenShares r)\<rparr>)\<rparr>)"

subsection \<open>live-code-update\<close>

record code_update =
  cu_sessionId :: jsval
  cu_code :: jsval
  cu_language :: jsval
  cu_cursorPosition :: jsval
  cu_selection :: jsval

definition live_code_update :: "string \<Rightarrow> code_update \<Rightarrow> sstate \<Rightarrow> sstate" where
  "live_code_update sock d st =
     (case liveInterviewRooms st (cu_sessionId d) of
        None \<Rightarrow> st
      | Some r \<Rightarrow>
          st\<lparr>liveInterviewRooms := (liveInterviewRooms st)
                (cu_sessionId d \<mapsto>
                   r\<lparr>codeState :=
                        \<lparr>code = cu_code d,
                         language = cu_language d,
                         cursorPositions =
                           AList.update sock
                             \<lparr>cursorPosition = cu_cursorPosition d,
                              selection = cu_selection d\<rparr>
                             (cursorPositions (codeState r))\<rparr>\<rparr>)\<rparr>)"

subsection \<open>whiteboard-draw and whiteboard-clear\<close>

definition whiteboard_draw :: "string \<Rightarrow> jsval \<Rightarrow> jsval \<Rightarrow> sstate \<Rightarrow> sstate" where
  "whiteboard_draw sock sessionId drawData st =
     (case liveInterviewRooms st sessionId of
        None \<Rightarrow> st
      | Some r \<Rightarrow>
          st\<lparr>liveInterviewRooms := (liveInterviewRooms st)
                (sessionId \<mapsto> r\<lparr>whiteboard := whiteboard r @ [drawData]\<rparr>)\<rparr>)"

definition whiteboard_clear :: "string \<Rightarrow> jsval \<Rightarrow> sstate \<Rightarrow> sstate" where
  "whiteboard_clear sock sessionId st =
     (case liveInterviewRooms st sessionId of
        None \<Rightarrow> st
      | Some r \<Rightarrow>
          st\<lparr>liveInterviewRooms := (liveInterviewRooms st)
                (sessionId \<mapsto> r\<lparr>whiteboard := []\<rparr>)\<rparr>)"

subsection \<open>Sequences of messages\<close>

datatype message =
    Join nat string join_data
  | Leave string jsval
  | Disconnect string
  | StartScreenShare nat string jsval jsval
  | StopScreenShare string jsval
  | CodeUpdate string code_update
  | WhiteboardDraw string jsval jsval
  | WhiteboardClear string jsval

fun handle :: "message \<Rightarrow> sstate \<Rightarrow> sstate" where
  "handle (Join now sock d) st = fst (join_live_interview now sock d st)"
| "handle (Leave sock sessionId) st = handleLiveInterviewLeave sock sessionId st"
| "handle (Disconnect sock) st = disconnect sock st"
| "handle (StartScreenShare now sock sessionId stype) st =
     start_screen_share now sock sessionId stype st"
| "handle (StopScreenShare sock sessionId) st = stop_screen_share sock sessionId st"
| "handle (CodeUpdate sock d) st = live_code_update sock d st"
| "handle (WhiteboardDraw sock sessionId drawData) st =
     whiteboard_draw sock sessionId drawData st"
| "handle (WhiteboardClear sock sessionId) st = whiteboard_clear sock sessionId st"

definition run :: "message list \<Rightarrow> sstate \<Rightarrow> sstate" where
  "run msgs st = fold handle msgs st"

text \<open>The keys of a room's participant map; a room that does not exist has none.\<close>

definition participant_ids :: "sstate \<Rightarrow> jsval \<Rightarrow> string set" where
  "participant_ids st sessionId =
     (case liveInterviewRooms st sessionId of
        None \<Rightarrow> {}
      | Some r \<Rightarrow> fst ` set (participants r))"

section \<open>Room membership as the specification words it\<close>

text \<open>
  An endpoint is in a room after a sequence of messages when some message of the sequence
  is its join of that room and no later message is its leave of that room or its
  disconnect.
\<close>

fun is_join_of :: "string \<Rightarrow> jsval \<Rightarrow> message \<Rightarrow> bool" where
  "is_join_of sock sessionId (Join now sock' d) = (sock' = sock \<and> jd_sessionId d = sessionId)"
| "is_join_of sock sessionId m = False"

fun is_exit_of :: "string \<Rightarrow> jsval \<Rightarrow> message \<Rightarrow> bool" where
  "is_exit_of sock sessionId (Leave sock' sessionId') = (sock' = sock \<and> sessionId' = sessionId)"
| "is_exit_of sock sessionId (Disconnect sock') = (sock' = sock)"
| "is_exit_of sock sessionId m = False"

fun joined_and_present :: "string \<Rightarrow> jsval \<Rightarrow> message list \<Rightarrow> bool" where
  "joined_and_present sock sessionId [] = False"
| "joined_and_present sock sessionId (m # ms) =
     (if is_join_of sock sessionId m \<and> list_all (\<lambda>m'. \<not> is_exit_of sock sessionId m') ms
      then True
      else joined_and_present sock sessionId ms)"

text \<open>A run of \<open>live-code-update\<close> messages, each with the socket that sends it.\<close>

definition apply_updates :: "(string \<times> code_update) list \<Rightarrow> sstate \<Rightarrow> sstate" where
  "apply_updates ups st = fold (\<lambda>u. live_code_update (fst u) (snd u)) ups st"

section \<open>Live interview sessions (routes/resume.js)\<close>

text \<open>
  \<open>liveInterviewSessions\<close> is a \<open>Map\<close> from the generated session id to the session
  object. \<open>uuidv4()\<close> and \<open>generateAccessCode()\<close> draw random strings; the model takes their
  results as arguments.
\<close>

record session_participant =
  sp_id :: string
  sp_name :: jsval
  sp_role :: jsval
  sp_joinedAt :: nat
  sp_cameras :: "jsval \<times> jsval"
  sp_audioEnabled :: bool
  sp_videoEnabled :: bool

record code_snapshot =
  cs_code :: jsval
  cs_language :: jsval
  cs_timestamp :: start_time

text \<open>\<open>{...event, timestamp: new Date()}\<close>: the own properties of the request's \<open>event\<close>, with
  \<open>timestamp\<close> set by the server.\<close>

record logged_event =
  le_fields :: "(string \<times> jsval) list"
  le_timestamp :: nat

record live_session =
  ls_id :: string
  accessCode :: string
  recruiterId :: jsval
  ls_recruiterName :: jsval
  companyName :: jsval
  jobTitle :: jsval
  ls_candidateEmail :: jsval
  ls_candidateName :: jsval
  scheduledTime :: start_time
  duration :: jsval
  requirements :: "jsval list"
  status :: string
  ls_participants :: "session_participant list"
  createdAt :: nat
  startedAt :: "nat option"
  endedAt :: "nat option"
  recording :: "bool \<times> jsval"
  codeSnapshots :: "code_snapshot list"
  chatHistory :: "jsval list"
  ls_proctoringEvents :: "logged_event list"
  feedback :: "(jsval \<times> jsval) option"

type_synonym sessions = "string \<rightharpoonup> live_session"

subsection \<open>POST /create\<close>

record create_request =
  cr_recruiterId :: jsval
  cr_recruiterName :: jsval
  cr_companyName :: jsval
  cr_jobTitle :: jsval
  cr_candidateEmail :: jsval
  cr_candidateName :: jsval
  cr_scheduledTime :: jsval
  cr_duration :: jsval
  cr_requirements :: "jsval list option"

definition new_session :: "string \<Rightarrow> string \<Rightarrow> nat \<Rightarrow> create_request \<Rightarrow> live_session" where
  "new_session sessionId acode now rq =
     \<lparr>ls_id = sessionId,
      accessCode = acode,
      recruiterId = cr_recruiterId rq,
      ls_recruiterName = cr_recruiterName rq,
      companyName = cr_companyName rq,
      jobTitle = cr_jobTitle rq,
      ls_candidateEmail = cr_candidateEmail rq,
      ls_candidateName = cr_candidateName rq,
      scheduledTime =
        (if truthy (cr_scheduledTime rq) then Supplied (cr_scheduledTime rq) else Clock now),
      duration = (if cr_duration rq = JUndefined then JNum 60 else cr_duration rq),
      requirements = (case cr_requirements rq of None \<Rightarrow> [] | Some rs \<Rightarrow> rs),
      status = ''scheduled'',
      ls_participants = [],
      createdAt = now,
      startedAt = None,
      endedAt = None,
      recording = (False, JNull),
      codeSnapshots = [],
      chatHistory = [],
      ls_proctoringEvents = [],
      feedback = None\<rparr>"

definition create :: "string \<Rightarrow> string \<Rightarrow> nat \<Rightarrow> create_request \<Rightarrow> sessions \<Rightarrow> sessions" where
  "create sessionId acode now rq ss = ss(sessionId \<mapsto> new_session sessionId acode now rq)"

subsection \<open>POST /join/:sessionId\<close>

record join_request =
  jq_name :: jsval
  jq_role :: jsval
  jq_code :: jsval

datatype join_body =
    JoinError string
  | Joined session_participant string "session_participant list"

text \<open>\<open>session.participants.some(p => p.role === r)\<close>.\<close>

definition has_role :: "string \<Rightarrow> session_participant list \<Rightarrow> bool" where
  "has_role r ps = list_ex (\<lambda>p. sp_role p = JStr r) ps"

text \<open>The statements of the handler between the access check and the reply, on the
  session object.\<close>

definition add_participant :: "session_participant \<Rightarrow> nat \<Rightarrow> live_session \<Rightarrow> live_session" where
  "add_participant p now s =
     (let s1 = s\<lparr>ls_participants := ls_participants s @ [p]\<rparr>;
          s2 = (if status s1 = ''scheduled'' then s1\<lparr>status := ''waiting''\<rparr> else s1);
          hasRecruiter = has_role ''recruiter'' (ls_participants s2);
          hasCandidate = has_role ''candidate'' (ls_participants s2)
      in if hasRecruiter \<and> hasCandidate \<and> status s2 \<noteq> ''in-progress''
         then s2\<lparr>status := ''in-progress'', startedAt := Some now\<rparr>
         else s2)"

definition join :: "string \<Rightarrow> nat \<Rightarrow> string \<Rightarrow> join_request \<Rightarrow> sessions \<Rightarrow> sessions \<times> join_body response" where
  "join pid now sessionId rq ss =
     (case ss sessionId of
        None \<Rightarrow> (ss, \<lparr>http_status = 404, body = JoinError ''Session not found''\<rparr>)
      | Some s \<Rightarrow>
          if JStr (accessCode s) \<noteq> jq_code rq
          then (ss, \<lparr>http_status = 403, body = JoinError ''Invalid access code''\<rparr>)
          else
            let p = \<lparr>sp_id = pid, sp_name = jq_name rq, sp_role = jq_role rq,
                     sp_joinedAt = now, sp_cameras = (JNull, JNull),
                     sp_audioEnabled = True, sp_videoEnabled = True\<rparr>;
                s' = add_participant p now s
            in (ss(sessionId \<mapsto> s'),
                \<lparr>http_status = 200, body = Joined p (status s') (ls_participants s')\<rparr>))"

subsection \<open>POST /end/:sessionId\<close>

record end_summary =
  es_duration :: int
  es_codeSnapshots :: nat
  es_chatMessages :: nat
  es_proctoringEvents :: nat

datatype end_body = EndError string | Ended end_summary

text \<open>\<open>Math.round((endedAt - startedAt) / 60000)\<close>; a \<open>null\<close> start counts as 0, and
  \<open>Math.round\<close> rounds a half up.\<close>

definition minutes_between :: "nat option \<Rightarrow> nat \<Rightarrow> int" where
  "minutes_between started ended =
     (2 * (int ended - (case started of None \<Rightarrow> 0 | Some t \<Rightarrow> int t)) + 60000) div 120000"

definition end_session :: "nat \<Rightarrow> string \<Rightarrow> jsval \<Rightarrow> jsval \<Rightarrow> sessions \<Rightarrow> sessions \<times> end_body response" where
  "end_session now sessionId fb notes ss =
     (case ss sessionId of
        None \<Rightarrow> (ss, \<lparr>http_status = 404, body = EndError ''Session not found''\<rparr>)
      | Some s \<Rightarrow>
          let s' = s\<lparr>status := ''completed'', endedAt := Some now, feedback := Some (fb, notes)\<rparr>
          in (ss(sessionId \<mapsto> s'),
              \<lparr>http_status = 200,
               body = Ended \<lparr>es_duration = minutes_between (startedAt s') now,
                             es_codeSnapshots = length (codeSnapshots s'),
                             es_chatMessages = length (chatHistory s'),
                             es_proctoringEvents = length (ls_proctoringEvents s')\<rparr>\<rparr>))"

subsection \<open>POST /snapshot/:sessionId\<close>

record snapshot_request =
  nq_code :: jsval
  nq_language :: jsval
  nq_timestamp :: jsval

definition snapshot :: "nat \<Rightarrow> string \<Rightarrow> snapshot_request \<Rightarrow> sessions \<Rightarrow> sessions \<times> string option response" where
  "snapshot now sessionId rq ss =
     (case ss sessionId of
        None \<Rightarrow> (ss, \<lparr>http_status = 404, body = Some ''Session not found''\<rparr>)
      | Some s \<Rightarrow>
          (ss(sessionId \<mapsto>
                s\<lparr>codeSnapshots := codeSnapshots s @
                     [\<lparr>cs_code = nq_code rq, cs_language = nq_language rq,
                       cs_timestamp =
                         (if truthy (nq_timestamp rq) then Supplied (nq_timestamp rq)
                          else Clock now)\<rparr>]\<rparr>),
           \<lparr>http_status = 200, body = None\<rparr>))"

subsection \<open>POST /proctoring-event/:sessionId\<close>

definition proctoring_event :: "nat \<Rightarrow> string \<Rightarrow> (string \<times> jsval) list \<Rightarrow> sessions \<Rightarrow> sessions \<times> string option response" where
  "proctoring_event now sessionId ev ss =
     (case ss sessionId of
        None \<Rightarrow> (ss, \<lparr>http_status = 404, body = Some ''Session not found''\<rparr>)
      | Some s \<Rightarrow>
          (ss(sessionId \<mapsto>
                s\<lparr>ls_proctoringEvents := ls_proctoringEvents s @
                     [\<lparr>le_fields = AList.delete ''timestamp'' ev, le_timestamp = now\<rparr>]\<rparr>),
           \<lparr>http_status = 200, body = None\<rparr>))"

section \<open>Concrete scenarios\<close>

text \<open>The inputs at which the instances and counterexamples below are evaluated.\<close>

definition sample_event :: "string \<Rightarrow> string \<Rightarrow> event" where
  "sample_event ty sev =
     \<lparr>eventType = JStr ty, severity = JStr sev, details = JUndefined, timestamp = 0\<rparr>"

definition empty_event_request :: event_request where
  "empty_event_request =
     \<lparr>rq_interviewId = JUndefined, rq_eventType = JUndefined, rq_severity = JUndefined,
      rq_details = JUndefined\<rparr>"

definition join_payload :: "string \<Rightarrow> string \<Rightarrow> join_data" where
  "join_payload r n =
     \<lparr>jd_sessionId = JStr r, jd_participantId = JStr n, jd_userName = JStr n,
      jd_role = JStr ''candidate'', jd_cameras = JUndefined\<rparr>"

definition update_payload :: "string \<Rightarrow> string \<Rightarrow> string \<Rightarrow> code_update" where
  "update_payload r c l =
     \<lparr>cu_sessionId = JStr r, cu_code = JStr c, cu_language = JStr l,
      cu_cursorPosition = JUndefined, cu_selection = JUndefined\<rparr>"

definition room_with_one_stroke :: sstate where
  "room_with_one_stroke =
     whiteboard_draw ''A'' (JStr ''R'') (JStr ''stroke-1'')
       (fst (join_live_interview 0 ''A'' (join_payload ''R'' ''a'') initial_sstate))"

definition empty_create_request :: create_request where
  "empty_create_request =
     \<lparr>cr_recruiterId = JUndefined, cr_recruiterName = JUndefined,
      cr_companyName = JUndefined, cr_jobTitle = JUndefined,
      cr_candidateEmail = JUndefined, cr_candidateName = JUndefined,
      cr_scheduledTime = JUndefined, cr_duration = JUndefined, cr_requirements = None\<rparr>"

definition join_as :: "string \<Rightarrow> string \<Rightarrow> join_request" where
  "join_as r c = \<lparr>jq_name = JUndefined, jq_role = JStr r, jq_code = JStr c\<rparr>"

definition fresh_session :: sessions where
  "fresh_session = create ''s1'' ''ABC234'' 0 empty_create_request Map.empty"

text \<open>A session that a recruiter and a candidate joined and that was then ended.\<close>

definition ended_session :: sessions where
  "ended_session =
     fst (end_session 30 ''s1'' JUndefined JUndefined
       (fst (join ''p2'' 20 ''s1'' (join_as ''candidate'' ''ABC234'')
         (fst (join ''p1'' 10 ''s1'' (join_as ''recruiter'' ''ABC234'') fresh_session)))))"

definition empty_snapshot_request :: snapshot_request where
  "empty_snapshot_request =
     \<lparr>nq_code = JStr ''x = 1'', nq_language = JStr ''python'', nq_timestamp = JUndefined\<rparr>"

definition sample_messages :: "message list" where
  "sample_messages =
     [Join 0 ''A'' (join_payload ''R'' ''a''),
      Join 1 ''B'' (join_payload ''R'' ''b''),
      Join 2 ''C'' (join_payload ''Q'' ''c''),
      Leave ''A'' (JStr ''R''),
      Disconnect ''C'']"

definition sample_verify_request :: verify_request where
  "sample_verify_request =
     \<lparr>vq_interviewId = JStr ''S1'', vq_userId = JStr ''u1'', vq_image = JStr ''data:image''\<rparr>"

definition mismatch_reply :: verifier_outcome where
  "mismatch_reply =
     Replied \<lparr>r_verified = JBool False, r_score = ScoreNumber ''0.312'',
              r_liveness = JBool True, r_reason = JUndefined\<rparr>"

section \<open>Integrity score\<close>

lemma deduct_weight: "deduct sev s = s - severity_weight sev"
  by (simp add: deduct_def severity_weight_def)

lemma fst_score_step: "fst (score_step ev acc) = fst acc - severity_weight (severity ev)"
  by (simp add: score_step_def Let_def deduct_weight)

lemma fst_fold_score_step:
  "fst (fold score_step events acc) = fst acc - total_deduction events"
proof (induction events arbitrary: acc)
  case Nil
  show ?case by (simp add: total_deduction_def)
next
  case (Cons e es)
  have "fst (fold score_step (e # es) acc) = fst (score_step e acc) - total_deduction es"
    using Cons.IH [of "score_step e acc"] by simp
  also have "\<dots> = fst acc - total_deduction (e # es)"
    by (simp add: fst_score_step total_deduction_def)
  finally show ?case .
qed

lemma score_formula: "score (computeIntegrityScore events) = max 0 (100 - total_deduction events)"
  by (simp add: computeIntegrityScore_def Let_def fst_fold_score_step)

lemma total_deduction_nonneg: "0 \<le> total_deduction events"
  by (induction events) (simp_all add: total_deduction_def severity_weight_def)

lemma total_deduction_append:
  "total_deduction (xs @ ys) = total_deduction xs + total_deduction ys"
  by (simp add: total_deduction_def)

lemma score_append_le:
  "score (computeIntegrityScore (es @ es')) \<le> score (computeIntegrityScore es)"
  using total_deduction_nonneg [of es']
  by (simp add: score_formula total_deduction_append)

lemma score_le_100: "score (computeIntegrityScore es) \<le> 100"
  using total_deduction_nonneg [of es] by (simp add: score_formula)

text \<open>The log after \<open>POST /event\<close>: the new event is the last entry of its own session's
  log, and no other log changes.\<close>

lemma events_after_post:
  "events_or_empty (fst (post_event now rq st)) k =
     (if k = rq_interviewId rq
      then events_or_empty st k @
           [\<lparr>eventType = rq_eventType rq, severity = rq_severity rq,
             details = rq_details rq, timestamp = now\<rparr>]
      else events_or_empty st k)"
  by (simp add: post_event_def Let_def events_or_empty_def split: option.splits)

lemma events_after_record:
  "events_or_empty (record_events k evs st) k = events_or_empty st k @ evs"
proof (induction evs arbitrary: st)
  case Nil
  show ?case by (simp add: record_events_def)
next
  case (Cons e es)
  have "record_events k (e # es) st =
        record_events k es (fst (post_event (timestamp e) (request_of k e) st))"
    by (simp add: record_events_def)
  then show ?case
    using Cons.IH [of "fst (post_event (timestamp e) (request_of k e) st)"]
    by (simp add: events_after_post request_of_def)
qed

lemma events_initial: "events_or_empty initial_pstate k = []"
  by (simp add: events_or_empty_def initial_pstate_def)

text \<open>\<open>POST /verify-identity\<close> leaves every log as it is or appends one event to it.\<close>

lemma events_after_verify:
  "\<exists>es'. events_or_empty (fst (verify_identity now outcome rq st)) k
          = events_or_empty st k @ es'"
  by (simp add: verify_identity_def Let_def events_or_empty_def
      split: verifier_outcome.splits verifier_score.splits option.splits)

text \<open>
  Claim C1. For every session id and every sequence of recorded proctoring events, the
  score that \<open>GET /:interviewId/score\<close> returns is the maximum of 0 and 100 minus the sum
  of the deductions of the events, where low deducts 2, medium 5, high 10 and critical
  20: this holds of the log of any state, and of the events recorded one by one from the
  empty state. Recording a low and a critical event gives 78; recording two medium events
  and a high one gives 80.
\<close>

theorem C1_integrity_score_formula:
  "score (body (snd (get_score ident st)))
     = max 0 (100 - total_deduction (events_or_empty st (JStr ident)))
   \<and> score (body (snd (get_score ident (record_events (JStr ident) evs initial_pstate))))
     = max 0 (100 - total_deduction evs)
   \<and> score (body (snd (get_score ident
        (record_events (JStr ident)
           [e1\<lparr>severity := JStr ''low''\<rparr>, e2\<lparr>severity := JStr ''critical''\<rparr>]
           initial_pstate)))) = 78
   \<and> score (body (snd (get_score ident
        (record_events (JStr ident)
           [e1\<lparr>severity := JStr ''medium''\<rparr>, e2\<lparr>severity := JStr ''medium''\<rparr>,
            e3\<lparr>severity := JStr ''high''\<rparr>]
           initial_pstate)))) = 80"
  by (simp add: get_score_def score_formula events_after_record events_initial
      total_deduction_def severity_weight_def)

text \<open>
  Claim C2. \<open>GET /:interviewId/score\<close> changes no state and its reply is a function of
  the session's log, so a second call with no event recorded in between returns the same
  score, event count and breakdown as the first.
  Appending an event to a log never increases the score, whether the event arrives by
  \<open>POST /event\<close> or by a failed identity check. The score lies between 0 and 100.
\<close>

theorem C2_score_pure_monotone_bounded:
  "fst (get_score ident st) = st
   \<and> snd (get_score ident st)
       = \<lparr>http_status = 200, body = computeIntegrityScore (events_or_empty st (JStr ident))\<rparr>
   \<and> snd (get_score ident (fst (get_score ident st))) = snd (get_score ident st)
   \<and> score (computeIntegrityScore (events @ [ev])) \<le> score (computeIntegrityScore events)
   \<and> score (body (snd (get_score ident (fst (post_event now rq st)))))
       \<le> score (body (snd (get_score ident st)))
   \<and> score (body (snd (get_score ident (fst (verify_identity now outcome vq st)))))
       \<le> score (body (snd (get_score ident st)))
   \<and> 0 \<le> score (body (snd (get_score ident st)))
   \<and> score (body (snd (get_score ident st))) \<le> 100"
proof -
  have post: "score (body (snd (get_score ident (fst (post_event now rq st)))))
       \<le> score (body (snd (get_score ident st)))"
    using score_append_le by (simp add: get_score_def events_after_post)
  obtain es' where
    "events_or_empty (fst (verify_identity now outcome vq st)) (JStr ident)
       = events_or_empty st (JStr ident) @ es'"
    using events_after_verify by blast
  then have verify: "score (body (snd (get_score ident (fst (verify_identity now outcome vq st)))))
       \<le> score (body (snd (get_score ident st)))"
    using score_append_le by (simp add: get_score_def)
  show ?thesis
    using post verify score_append_le score_le_100
    by (simp add: get_score_def score_formula)
qed

theorem C2_score_pure_monotone_bounded_witness:
  "score (body (snd (get_score ''S1''
      (fst (verify_identity 7 mismatch_reply sample_verify_request
         (record_events (JStr ''S1'') [sample_event ''tab_switch'' ''high''] initial_pstate))))))
     = 70
   \<and> score (body (snd (get_score ''S1''
        (record_events (JStr ''S1'') [sample_event ''tab_switch'' ''high''] initial_pstate))))
     = 90
   \<and> score (body (snd (get_score ''S1''
      (fst (verify_identity 7 mismatch_reply sample_verify_request
         (record_events (JStr ''S1'') [sample_event ''tab_switch'' ''high''] initial_pstate))))))
     \<le> score (body (snd (get_score ''S1''
        (record_events (JStr ''S1'') [sample_event ''tab_switch'' ''high''] initial_pstate))))"
proof -
  let ?st = "record_events (JStr ''S1'') [sample_event ''tab_switch'' ''high''] initial_pstate"
  have before: "score (body (snd (get_score ''S1'' ?st))) = 90"
    by (simp add: get_score_def score_formula events_after_record events_initial
        total_deduction_def severity_weight_def sample_event_def)
  have "proctoringEvents ?st (JStr ''S1'') = Some [sample_event ''tab_switch'' ''high'']"
    by (simp add: record_events_def post_event_def Let_def request_of_def events_or_empty_def
        initial_pstate_def sample_event_def)
  then have "events_or_empty
        (fst (verify_identity 7 mismatch_reply sample_verify_request ?st)) (JStr ''S1'')
      = [sample_event ''tab_switch'' ''high'',
         \<lparr>eventType = JStr ''identity_mismatch'', severity = JStr ''critical'',
          details = JStr ''Face does not match registered user. Score: 0.312'',
          timestamp = 7\<rparr>]"
    by (simp add: verify_identity_def Let_def mismatch_reply_def sample_verify_request_def
        events_or_empty_def score_text_def)
  then have after: "score (body (snd (get_score ''S1''
      (fst (verify_identity 7 mismatch_reply sample_verify_request ?st))))) = 70"
    by (simp add: get_score_def score_formula total_deduction_def severity_weight_def
        sample_event_def)
  show ?thesis
    using before after
      C2_score_pure_monotone_bounded [where ident = "''S1''" and st = ?st and now = 7
        and outcome = mismatch_reply and vq = sample_verify_request]
    by simp
qed

section \<open>Room registry\<close>

lemma keys_delete: "fst ` set (AList.delete k al) = fst ` set al - {k}"
proof -
  have "set (map fst (AList.delete k al)) = set (map fst al) - {k}"
    by (simp add: delete_keys)
  then show ?thesis by simp
qed

lemma participant_ids_join:
  "participant_ids (fst (join_live_interview now sock d st)) r =
     (if r = jd_sessionId d then insert sock (participant_ids st r) else participant_ids st r)"
  by (simp add: join_live_interview_def Let_def participant_ids_def dom_update new_room_def
      split: option.splits)

lemma participant_ids_leave:
  "participant_ids (handleLiveInterviewLeave sock sessionId st) r =
     (if r = sessionId then participant_ids st r - {sock} else participant_ids st r)"
  by (auto simp: handleLiveInterviewLeave_def participant_ids_def has_key_def remove_socket_def
      keys_delete split: option.splits)

lemma participant_ids_disconnect:
  "participant_ids (disconnect sock st) r = participant_ids st r - {sock}"
  by (auto simp: disconnect_def participant_ids_def has_key_def remove_socket_def
      keys_delete split: option.splits)

lemma participant_ids_other:
  "participant_ids (start_screen_share now sock sessionId stype st) r = participant_ids st r"
  "participant_ids (stop_screen_share sock sessionId st) r = participant_ids st r"
  "participant_ids (live_code_update sock cu st) r = participant_ids st r"
  "participant_ids (whiteboard_draw sock sessionId dd st) r = participant_ids st r"
  "participant_ids (whiteboard_clear sock sessionId st) r = participant_ids st r"
  by (auto simp: start_screen_share_def stop_screen_share_def live_code_update_def
      whiteboard_draw_def whiteboard_clear_def participant_ids_def split: option.splits)

text \<open>One message adds the socket it joins to the room and removes the socket it takes
  out of it.\<close>

lemma participant_ids_handle:
  "participant_ids (handle m st) r =
     {s. is_join_of s r m} \<union> (participant_ids st r - {s. is_exit_of s r m})"
  by (cases m)
     (auto simp: participant_ids_join participant_ids_leave participant_ids_disconnect
        participant_ids_other)

text \<open>From any state: those who joined during the run and stayed, and those who were
  there before and were not taken out.\<close>

lemma participant_ids_run:
  "participant_ids (run msgs st) r =
     {s. joined_and_present s r msgs} \<union>
     {s \<in> participant_ids st r. list_all (\<lambda>m. \<not> is_exit_of s r m) msgs}"
proof (induction msgs arbitrary: st)
  case Nil
  show ?case by (simp add: run_def)
next
  case (Cons m ms)
  have "run (m # ms) st = run ms (handle m st)"
    by (simp add: run_def)
  then have "participant_ids (run (m # ms) st) r =
     {s. joined_and_present s r ms} \<union>
     {s \<in> participant_ids (handle m st) r. list_all (\<lambda>m. \<not> is_exit_of s r m) ms}"
    using Cons.IH [of "handle m st"] by simp
  then show ?case
    by (auto simp: participant_ids_handle)
qed

lemma participant_ids_initial: "participant_ids initial_sstate r = {}"
  by (simp add: participant_ids_def initial_sstate_def)

lemma other_room_after_join:
  "r \<noteq> jd_sessionId d \<Longrightarrow>
     liveInterviewRooms (fst (join_live_interview now sock d st)) r = liveInterviewRooms st r"
  by (simp add: join_live_interview_def Let_def)

lemma other_room_after_leave:
  "r \<noteq> sessionId \<Longrightarrow>
     liveInterviewRooms (handleLiveInterviewLeave sock sessionId st) r = liveInterviewRooms st r"
  by (simp add: handleLiveInterviewLeave_def split: option.splits)

text \<open>
  Claim C3. After any sequence of messages on the empty registry, the keys of a room's
  participant map are exactly the sockets that joined that room and have not left it or
  disconnected since. A join or a leave on one room leaves every other room's entry, and
  so its participant set, as it was.
\<close>

theorem C3_room_membership:
  "participant_ids (run msgs initial_sstate) r = {s. joined_and_present s r msgs}
   \<and> (r \<noteq> jd_sessionId d \<longrightarrow>
        liveInterviewRooms (fst (join_live_interview now sock d st)) r = liveInterviewRooms st r
        \<and> participant_ids (fst (join_live_interview now sock d st)) r = participant_ids st r)
   \<and> (r \<noteq> sessionId \<longrightarrow>
        liveInterviewRooms (handleLiveInterviewLeave sock sessionId st) r
          = liveInterviewRooms st r
        \<and> participant_ids (handleLiveInterviewLeave sock sessionId st) r
          = participant_ids st r)"
  by (simp add: participant_ids_run participant_ids_initial participant_ids_join
      participant_ids_leave other_room_after_join other_room_after_leave)

theorem C3_room_membership_witness:
  "participant_ids (run sample_messages initial_sstate) (JStr ''R'') = {''B''}
   \<and> JStr ''R'' \<noteq> jd_sessionId (join_payload ''Q'' ''c'')
   \<and> participant_ids
        (fst (join_live_interview 2 ''C'' (join_payload ''Q'' ''c'')
           (run (take 2 sample_messages) initial_sstate))) (JStr ''R'')
       = participant_ids (run (take 2 sample_messages) initial_sstate) (JStr ''R'')
   \<and> JStr ''Q'' \<noteq> JStr ''R''
   \<and> participant_ids
        (handleLiveInterviewLeave ''A'' (JStr ''R'')
           (run (take 3 sample_messages) initial_sstate)) (JStr ''Q'')
       = participant_ids (run (take 3 sample_messages) initial_sstate) (JStr ''Q'')"
proof -
  have "{s. joined_and_present s (JStr ''R'') sample_messages} = {''B''}"
    by (auto simp: sample_messages_def join_payload_def)
  then show ?thesis
    using
      C3_room_membership [where msgs = sample_messages and r = "JStr ''R''"
        and d = "join_payload ''Q'' ''c''" and now = 2 and sock = "''C''"
        and st = "run (take 2 sample_messages) initial_sstate"]
      C3_room_membership [where r = "JStr ''Q''" and sessionId = "JStr ''R''"
        and sock = "''A''" and st = "run (take 3 sample_messages) initial_sstate"]
    by (simp add: join_payload_def)
qed

section \<open>Shared code state\<close>

lemma room_exists_after_update:
  "liveInterviewRooms st r \<noteq> None \<Longrightarrow> liveInterviewRooms (live_code_update sock d st) r \<noteq> None"
  by (simp add: live_code_update_def split: option.splits)

lemma room_exists_after_updates:
  "liveInterviewRooms st r \<noteq> None \<Longrightarrow> liveInterviewRooms (apply_updates ups st) r \<noteq> None"
proof (induction ups arbitrary: st)
  case Nil
  then show ?case by (simp add: apply_updates_def)
next
  case (Cons u us)
  have "apply_updates (u # us) st = apply_updates us (live_code_update (fst u) (snd u) st)"
    by (simp add: apply_updates_def)
  then show ?case
    using Cons.IH [OF room_exists_after_update [OF Cons.prems]] by simp
qed

lemma code_after_update:
  assumes "liveInterviewRooms st (cu_sessionId d) = Some r"
  shows "\<exists>r'. liveInterviewRooms (live_code_update sock d st) (cu_sessionId d) = Some r'
           \<and> code (codeState r') = cu_code d \<and> language (codeState r') = cu_language d"
  using assms by (simp add: live_code_update_def)

text \<open>Only the last update of a run matters for the stored text and language.\<close>

lemma code_after_updates:
  assumes "liveInterviewRooms st sessionId \<noteq> None"
    and "ups \<noteq> []"
    and "\<forall>u \<in> set ups. cu_sessionId (snd u) = sessionId"
  shows "\<exists>r'. liveInterviewRooms (apply_updates ups st) sessionId = Some r'
           \<and> code (codeState r') = cu_code (snd (last ups))
           \<and> language (codeState r') = cu_language (snd (last ups))"
proof (cases ups rule: rev_cases)
  case Nil
  with assms(2) show ?thesis by simp
next
  case (snoc us u)
  have ex: "liveInterviewRooms (apply_updates us st) sessionId \<noteq> None"
    using assms(1) by (rule room_exists_after_updates)
  have sid: "cu_sessionId (snd u) = sessionId"
    using assms(3) snoc by simp
  have "apply_updates ups st = live_code_update (fst u) (snd u) (apply_updates us st)"
    using snoc by (simp add: apply_updates_def)
  then show ?thesis
    using ex sid snoc code_after_update [of "apply_updates us st" "snd u" _ "fst u"]
    by auto
qed

text \<open>An update for a room that is not in the registry changes nothing.\<close>

lemma update_for_missing_room:
  "liveInterviewRooms st (cu_sessionId d) = None \<Longrightarrow> live_code_update sock d st = st"
  by (simp add: live_code_update_def)

lemma snapshot_of_existing_room:
  assumes "liveInterviewRooms st (jd_sessionId d) = Some r"
  shows "rs_codeState (snd (join_live_interview now sock d st)) = codeState r"
  using assms by (simp add: join_live_interview_def Let_def room_state_of_def)

text \<open>
  Claim C4. For a room of the registry and a run of one or more \<open>live-code-update\<close>
  messages for it, the \<open>room-state\<close> snapshot a socket receives when it joins right after
  the run carries the code text and the language of the last update of the run.
\<close>

theorem C4_snapshot_last_writer_wins:
  assumes "liveInterviewRooms st (jd_sessionId d) \<noteq> None"
    and "ups \<noteq> []"
    and "\<forall>u \<in> set ups. cu_sessionId (snd u) = jd_sessionId d"
  shows "code (rs_codeState (snd (join_live_interview now sock d (apply_updates ups st))))
           = cu_code (snd (last ups))
       \<and> language (rs_codeState (snd (join_live_interview now sock d (apply_updates ups st))))
           = cu_language (snd (last ups))"
proof -
  obtain r' where r': "liveInterviewRooms (apply_updates ups st) (jd_sessionId d) = Some r'"
    and c: "code (codeState r') = cu_code (snd (last ups))"
    and l: "language (codeState r') = cu_language (snd (last ups))"
    using code_after_updates [OF assms] by blast
  show ?thesis
    using snapshot_of_existing_room [OF r'] c l by simp
qed

theorem C4_snapshot_last_writer_wins_witness:
  "liveInterviewRooms (fst (join_live_interview 0 ''A'' (join_payload ''R'' ''a'') initial_sstate))
     (jd_sessionId (join_payload ''R'' ''b'')) \<noteq> None
   \<and> code (rs_codeState (snd (join_live_interview 9 ''B'' (join_payload ''R'' ''b'')
        (apply_updates
           [(''A'', update_payload ''R'' ''x = 1'' ''python''),
            (''A'', update_payload ''R'' ''let x = 2'' ''javascript'')]
           (fst (join_live_interview 0 ''A'' (join_payload ''R'' ''a'') initial_sstate))))))
       = JStr ''let x = 2''
   \<and> language (rs_codeState (snd (join_live_interview 9 ''B'' (join_payload ''R'' ''b'')
        (apply_updates
           [(''A'', update_payload ''R'' ''x = 1'' ''python''),
            (''A'', update_payload ''R'' ''let x = 2'' ''javascript'')]
           (fst (join_live_interview 0 ''A'' (join_payload ''R'' ''a'') initial_sstate))))))
       = JStr ''javascript''"
proof -
  let ?st = "fst (join_live_interview 0 ''A'' (join_payload ''R'' ''a'') initial_sstate)"
  let ?ups = "[(''A'', update_payload ''R'' ''x = 1'' ''python''),
               (''A'', update_payload ''R'' ''let x = 2'' ''javascript'')]"
  have h1: "liveInterviewRooms ?st (jd_sessionId (join_payload ''R'' ''b'')) \<noteq> None"
    by (simp add: join_live_interview_def Let_def join_payload_def)
  have h2: "?ups \<noteq> []" by simp
  have h3: "\<forall>u \<in> set ?ups. cu_sessionId (snd u) = jd_sessionId (join_payload ''R'' ''b'')"
    by (simp add: update_payload_def join_payload_def)
  show ?thesis
    using h1 C4_snapshot_last_writer_wins [OF h1 h2 h3, of 9 "''B''"]
    by (simp add: update_payload_def)
qed

section \<open>Whiteboard\<close>

text \<open>The \<open>room-state\<close> reply is built from the participants, the code state, the screen
  shares and the settings of the room; a stroke drawn before the join does not change
  it.\<close>

lemma room_state_ignores_whiteboard:
  "snd (join_live_interview now sock d (whiteboard_draw sock' sessionId drawData st))
     = snd (join_live_interview now sock d st)"
  by (simp add: join_live_interview_def whiteboard_draw_def Let_def room_state_of_def
      split: option.splits)

text \<open>
  Claim C5. The snapshot sent on join should contain every stroke drawn in the room
  before the join. In the handler it does not: after socket \<open>A\<close> joins room \<open>R\<close> and
  draws one stroke, the room's whiteboard log holds the stroke, and the \<open>room-state\<close>
  that socket \<open>B\<close> receives on joining is the one it would receive had no stroke been
  drawn.
\<close>

theorem C5_stroke_not_in_snapshot:
  "map_option whiteboard (liveInterviewRooms room_with_one_stroke (JStr ''R''))
     = Some [JStr ''stroke-1'']
   \<and> snd (join_live_interview 2 ''B'' (join_payload ''R'' ''b'') room_with_one_stroke)
     = snd (join_live_interview 2 ''B'' (join_payload ''R'' ''b'')
         (fst (join_live_interview 0 ''A'' (join_payload ''R'' ''a'') initial_sstate)))"
proof -
  have "map_option whiteboard (liveInterviewRooms room_with_one_stroke (JStr ''R''))
          = Some [JStr ''stroke-1'']"
    by (simp add: room_with_one_stroke_def whiteboard_draw_def join_live_interview_def
        initial_sstate_def join_payload_def new_room_def Let_def)
  then show ?thesis
    by (simp add: room_with_one_stroke_def room_state_ignores_whiteboard)
qed

section \<open>Session status\<close>

lemma add_participant_status:
  "status (add_participant p now s) =
     (if has_role ''recruiter'' (ls_participants s @ [p])
         \<and> has_role ''candidate'' (ls_participants s @ [p])
         \<and> status s \<noteq> ''in-progress''
      then ''in-progress''
      else if status s = ''scheduled'' then ''waiting'' else status s)"
  by (auto simp: add_participant_def Let_def)

lemma add_participant_startedAt:
  "startedAt (add_participant p now s) =
     (if has_role ''recruiter'' (ls_participants s @ [p])
         \<and> has_role ''candidate'' (ls_participants s @ [p])
         \<and> status s \<noteq> ''in-progress''
      then Some now
      else startedAt s)"
  by (auto simp: add_participant_def Let_def)

text \<open>Once the interview is in progress, a join neither changes the status nor the start
  time.\<close>

lemma in_progress_stays:
  "status s = ''in-progress'' \<Longrightarrow>
     status (add_participant p now s) = ''in-progress''
     \<and> startedAt (add_participant p now s) = startedAt s"
  by (simp add: add_participant_status add_participant_startedAt)

text \<open>What a join never touches.\<close>

lemma add_participant_keeps:
  "ls_participants (add_participant p now s) = ls_participants s @ [p]"
  "codeSnapshots (add_participant p now s) = codeSnapshots s"
  "ls_proctoringEvents (add_participant p now s) = ls_proctoringEvents s"
  "chatHistory (add_participant p now s) = chatHistory s"
  "endedAt (add_participant p now s) = endedAt s"
  "feedback (add_participant p now s) = feedback s"
  "accessCode (add_participant p now s) = accessCode s"
  by (simp_all add: add_participant_def Let_def)

text \<open>
  Claim C6, as amended. The role the handler looks for is \<open>recruiter\<close>. A session created
  by \<open>POST /create\<close> is \<open>scheduled\<close>. The join of a recruiter makes it \<open>waiting\<close> with no
  start time; the join of a candidate after that makes it \<open>in-progress\<close> and sets the start
  time to the time of that join; a third join, of a recruiter or of any other role,
  leaves the status \<open>in-progress\<close> and the start time as the second join set it.
\<close>

theorem C6_recruiter_then_candidate_starts_once:
  "map_option status (create sid acode t0 crq ss sid) = Some ''scheduled''
   \<and> map_option status
        (fst (join p1 t1 sid \<lparr>jq_name = n1, jq_role = JStr ''recruiter'', jq_code = JStr acode\<rparr>
           (create sid acode t0 crq ss)) sid) = Some ''waiting''
   \<and> map_option startedAt
        (fst (join p1 t1 sid \<lparr>jq_name = n1, jq_role = JStr ''recruiter'', jq_code = JStr acode\<rparr>
           (create sid acode t0 crq ss)) sid) = Some None
   \<and> map_option status
        (fst (join p2 t2 sid \<lparr>jq_name = n2, jq_role = JStr ''candidate'', jq_code = JStr acode\<rparr>
           (fst (join p1 t1 sid \<lparr>jq_name = n1, jq_role = JStr ''recruiter'', jq_code = JStr acode\<rparr>
              (create sid acode t0 crq ss)))) sid) = Some ''in-progress''
   \<and> map_option startedAt
        (fst (join p2 t2 sid \<lparr>jq_name = n2, jq_role = JStr ''candidate'', jq_code = JStr acode\<rparr>
           (fst (join p1 t1 sid \<lparr>jq_name = n1, jq_role = JStr ''recruiter'', jq_code = JStr acode\<rparr>
              (create sid acode t0 crq ss)))) sid) = Some (Some t2)
   \<and> map_option status
        (fst (join p3 t3 sid \<lparr>jq_name = n3, jq_role = r3, jq_code = JStr acode\<rparr>
          (fst (join p2 t2 sid \<lparr>jq_name = n2, jq_role = JStr ''candidate'', jq_code = JStr acode\<rparr>
            (fst (join p1 t1 sid \<lparr>jq_name = n1, jq_role = JStr ''recruiter'', jq_code = JStr acode\<rparr>
              (create sid acode t0 crq ss)))))) sid) = Some ''in-progress''
   \<and> map_option startedAt
        (fst (join p3 t3 sid \<lparr>jq_name = n3, jq_role = r3, jq_code = JStr acode\<rparr>
          (fst (join p2 t2 sid \<lparr>jq_name = n2, jq_role = JStr ''candidate'', jq_code = JStr acode\<rparr>
            (fst (join p1 t1 sid \<lparr>jq_name = n1, jq_role = JStr ''recruiter'', jq_code = JStr acode\<rparr>
              (create sid acode t0 crq ss)))))) sid) = Some (Some t2)"
  by (simp add: create_def new_session_def join_def Let_def add_participant_status
      add_participant_startedAt add_participant_keeps has_role_def)

text \<open>With the role \<open>interviewer\<close>, as the claim words it, the session is still \<open>waiting\<close>
  after the candidate has joined.\<close>

theorem C6_interviewer_role_counterexample:
  "map_option status
     (fst (join ''p2'' 20 ''s1'' (join_as ''candidate'' ''ABC234'')
        (fst (join ''p1'' 10 ''s1'' (join_as ''interviewer'' ''ABC234'') fresh_session))) ''s1'')
     = Some ''waiting''
   \<and> map_option status
     (fst (join ''p2'' 20 ''s1'' (join_as ''candidate'' ''ABC234'')
        (fst (join ''p1'' 10 ''s1'' (join_as ''interviewer'' ''ABC234'') fresh_session))) ''s1'')
     \<noteq> Some ''in-progress''"
  by (simp add: fresh_session_def join_as_def create_def new_session_def join_def Let_def
      add_participant_status add_participant_keeps has_role_def)

text \<open>
  Claim C7, as amended. No handler checks for \<open>completed\<close>. On a completed session,
  \<open>POST /snapshot\<close> and \<open>POST /proctoring-event\<close> each append one entry to their own list
  and change nothing else, so the status stays \<open>completed\<close>; \<open>POST /join\<close> with the access
  code appends one participant and leaves the code snapshots, the proctoring log, the
  chat history, the end time and the feedback as they were; a join with another access
  code is answered 403 and changes nothing.
\<close>

theorem C7_calls_on_completed_session:
  assumes "ss sid = Some s" and "status s = ''completed''"
  shows "fst (snapshot now sid nq ss) sid =
           Some (s\<lparr>codeSnapshots := codeSnapshots s @
                   [\<lparr>cs_code = nq_code nq, cs_language = nq_language nq,
                     cs_timestamp = (if truthy (nq_timestamp nq)
                                     then Supplied (nq_timestamp nq) else Clock now)\<rparr>]\<rparr>)
       \<and> map_option status (fst (snapshot now sid nq ss) sid) = Some ''completed''
       \<and> fst (proctoring_event now sid ev ss) sid =
           Some (s\<lparr>ls_proctoringEvents := ls_proctoringEvents s @
                   [\<lparr>le_fields = AList.delete ''timestamp'' ev, le_timestamp = now\<rparr>]\<rparr>)
       \<and> map_option status (fst (proctoring_event now sid ev ss) sid) = Some ''completed''
       \<and> (\<exists>s'. fst (join pid now sid (jq\<lparr>jq_code := JStr (accessCode s)\<rparr>) ss) sid = Some s'
             \<and> ls_participants s' = ls_participants s @
                   [\<lparr>sp_id = pid, sp_name = jq_name jq, sp_role = jq_role jq,
                     sp_joinedAt = now, sp_cameras = (JNull, JNull),
                     sp_audioEnabled = True, sp_videoEnabled = True\<rparr>]
             \<and> codeSnapshots s' = codeSnapshots s
             \<and> ls_proctoringEvents s' = ls_proctoringEvents s
             \<and> chatHistory s' = chatHistory s
             \<and> endedAt s' = endedAt s
             \<and> feedback s' = feedback s)
       \<and> (jq_code jq \<noteq> JStr (accessCode s) \<longrightarrow>
             join pid now sid jq ss
               = (ss, \<lparr>http_status = 403, body = JoinError ''Invalid access code''\<rparr>))"
proof -
  have snap: "fst (snapshot now sid nq ss) sid =
           Some (s\<lparr>codeSnapshots := codeSnapshots s @
                   [\<lparr>cs_code = nq_code nq, cs_language = nq_language nq,
                     cs_timestamp = (if truthy (nq_timestamp nq)
                                     then Supplied (nq_timestamp nq) else Clock now)\<rparr>]\<rparr>)"
    using assms(1) by (simp add: snapshot_def)
  have ev: "fst (proctoring_event now sid ev ss) sid =
           Some (s\<lparr>ls_proctoringEvents := ls_proctoringEvents s @
                   [\<lparr>le_fields = AList.delete ''timestamp'' ev, le_timestamp = now\<rparr>]\<rparr>)"
    using assms(1) by (simp add: proctoring_event_def)
  have jn: "\<exists>s'. fst (join pid now sid (jq\<lparr>jq_code := JStr (accessCode s)\<rparr>) ss) sid = Some s'
             \<and> ls_participants s' = ls_participants s @
                   [\<lparr>sp_id = pid, sp_name = jq_name jq, sp_role = jq_role jq,
                     sp_joinedAt = now, sp_cameras = (JNull, JNull),
                     sp_audioEnabled = True, sp_videoEnabled = True\<rparr>]
             \<and> codeSnapshots s' = codeSnapshots s
             \<and> ls_proctoringEvents s' = ls_proctoringEvents s
             \<and> chatHistory s' = chatHistory s
             \<and> endedAt s' = endedAt s
             \<and> feedback s' = feedback s"
    using assms(1) by (simp add: join_def Let_def add_participant_keeps)
  have refuse: "jq_code jq \<noteq> JStr (accessCode s) \<longrightarrow>
             join pid now sid jq ss
               = (ss, \<lparr>http_status = 403, body = JoinError ''Invalid access code''\<rparr>)"
    using assms(1) by (auto simp: join_def)
  show ?thesis
    using snap ev jn refuse assms(2) by simp
qed

lemma ended_session_s1:
  "\<exists>s. ended_session ''s1'' = Some s \<and> status s = ''completed''
      \<and> accessCode s = ''ABC234''"
  by (simp add: ended_session_def fresh_session_def join_as_def create_def new_session_def
      join_def end_session_def Let_def add_participant_def has_role_def)

theorem C7_calls_on_completed_session_witness:
  "map_option status (ended_session ''s1'') = Some ''completed''
   \<and> map_option status (fst (snapshot 40 ''s1'' empty_snapshot_request ended_session) ''s1'')
       = Some ''completed''
   \<and> map_option status (fst (proctoring_event 40 ''s1'' [] ended_session) ''s1'')
       = Some ''completed''
   \<and> join ''p3'' 40 ''s1'' (join_as ''recruiter'' ''WRONG1'') ended_session
       = (ended_session, \<lparr>http_status = 403, body = JoinError ''Invalid access code''\<rparr>)"
proof -
  obtain s where s: "ended_session ''s1'' = Some s" and c: "status s = ''completed''"
    and code: "accessCode s = ''ABC234''"
    using ended_session_s1 by blast
  show ?thesis
    using s c code
      C7_calls_on_completed_session [where ss = ended_session and sid = "''s1''" and s = s
        and now = 40 and nq = empty_snapshot_request and ev = "[]" and pid = "''p3''"
        and jq = "join_as ''recruiter'' ''WRONG1''", OF s c]
    by (simp add: join_as_def)
qed

text \<open>After the end of the session a snapshot and a proctoring event are still stored,
  a join still adds a participant, and this join sets the status back to
  \<open>in-progress\<close>.\<close>

theorem C7_completed_not_terminal_counterexample:
  "map_option status (ended_session ''s1'') = Some ''completed''
   \<and> map_option status
        (fst (join ''p3'' 40 ''s1'' (join_as ''recruiter'' ''ABC234'') ended_session) ''s1'')
       = Some ''in-progress''
   \<and> map_option (length \<circ> ls_participants) (ended_session ''s1'') = Some 2
   \<and> map_option (length \<circ> ls_participants)
        (fst (join ''p3'' 40 ''s1'' (join_as ''recruiter'' ''ABC234'') ended_session) ''s1'')
       = Some 3
   \<and> map_option (length \<circ> codeSnapshots) (ended_session ''s1'') = Some 0
   \<and> map_option (length \<circ> codeSnapshots)
        (fst (snapshot 40 ''s1'' empty_snapshot_request ended_session) ''s1'') = Some 1
   \<and> map_option (length \<circ> ls_proctoringEvents) (ended_session ''s1'') = Some 0
   \<and> map_option (length \<circ> ls_proctoringEvents)
        (fst (proctoring_event 40 ''s1'' [] ended_session) ''s1'') = Some 1"
  by (simp add: ended_session_def fresh_session_def join_as_def create_def new_session_def
      join_def end_session_def snapshot_def proctoring_event_def Let_def add_participant_status
      add_participant_keeps has_role_def)

section \<open>Read paths and unknown ids\<close>

lemma score_of_empty_log:
  "computeIntegrityScore [] = \<lparr>score = 100, totalEvents = 0, breakdown = Map.empty\<rparr>"
  by (simp add: computeIntegrityScore_def)

text \<open>
  Claim C8, as amended. Of the read handlers of the proctoring routes, the one of
  \<open>GET /dashboard/:interviewId\<close> answers 404 for an id under which no session is
  registered. The handlers of \<open>GET /:interviewId\<close>, \<open>GET /:interviewId/score\<close> and
  \<open>GET /:interviewId/identity-checks\<close> answer 200 for an id with no log: an empty list, the
  score 100 with no events and an empty breakdown, and zero checks. None of them changes
  the state.
\<close>

theorem C8_unknown_id_on_read_paths:
  "(activeSessions st (JStr ident) = None \<longrightarrow>
      get_dashboard ident st
        = (st, \<lparr>http_status = 404, body = DashboardError ''Session not found''\<rparr>))
   \<and> (proctoringEvents st (JStr ident) = None \<longrightarrow>
      get_events ident st = (st, \<lparr>http_status = 200, body = []\<rparr>)
      \<and> get_score ident st
        = (st, \<lparr>http_status = 200,
                 body = \<lparr>score = 100, totalEvents = 0, breakdown = Map.empty\<rparr>\<rparr>))
   \<and> (identityVerifications st (JStr ident) = None \<longrightarrow>
      get_identity_checks ident st
        = (st, \<lparr>http_status = 200,
                 body = \<lparr>total = 0, passed = 0, failed = 0, verifications = []\<rparr>\<rparr>))"
  by (simp add: get_dashboard_def get_events_def get_score_def get_identity_checks_def
      events_or_empty_def verifications_or_empty_def score_of_empty_log)

theorem C8_unknown_id_on_read_paths_witness:
  "activeSessions initial_pstate (JStr ''never-registered'') = None
   \<and> http_status (snd (get_dashboard ''never-registered'' initial_pstate)) = 404
   \<and> proctoringEvents initial_pstate (JStr ''never-registered'') = None
   \<and> snd (get_events ''never-registered'' initial_pstate) = \<lparr>http_status = 200, body = []\<rparr>
   \<and> http_status (snd (get_score ''never-registered'' initial_pstate)) = 200
   \<and> score (body (snd (get_score ''never-registered'' initial_pstate))) = 100
   \<and> identityVerifications initial_pstate (JStr ''never-registered'') = None
   \<and> http_status (snd (get_identity_checks ''never-registered'' initial_pstate)) = 200"
proof -
  have none: "activeSessions initial_pstate (JStr ''never-registered'') = None"
    "proctoringEvents initial_pstate (JStr ''never-registered'') = None"
    "identityVerifications initial_pstate (JStr ''never-registered'') = None"
    by (simp_all add: initial_pstate_def)
  show ?thesis
    using none
      C8_unknown_id_on_read_paths [where st = initial_pstate and ident = "''never-registered''"]
    by simp
qed

text \<open>On the empty state the event list and the score of an id nobody registered come
  with status 200.\<close>

theorem C8_score_of_unknown_id_counterexample:
  "http_status (snd (get_score ''never-registered'' initial_pstate)) = 200
   \<and> http_status (snd (get_score ''never-registered'' initial_pstate)) \<noteq> 404
   \<and> http_status (snd (get_events ''never-registered'' initial_pstate)) = 200
   \<and> http_status (snd (get_events ''never-registered'' initial_pstate)) \<noteq> 404"
  by (simp add: get_score_def get_events_def)

section \<open>Required fields\<close>

text \<open>
  Claim C9, as amended. \<open>POST /verify-identity\<close> answers a request whose \<open>userId\<close> or
  \<open>image\<close> is missing (or otherwise falsy) with status 400 and leaves the state as it
  was, whatever the verification service would have said.
\<close>

theorem C9_verify_identity_rejects_missing_fields:
  "\<not> truthy (vq_userId vq) \<or> \<not> truthy (vq_image vq) \<Longrightarrow>
     verify_identity now outcome vq st
       = (st, \<lparr>http_status = 400, body = VerifyFailed ''Missing userId or image''\<rparr>)"
  by (auto simp: verify_identity_def)

theorem C9_verify_identity_rejects_missing_fields_witness:
  "\<not> truthy (vq_userId (sample_verify_request\<lparr>vq_userId := JUndefined\<rparr>))
   \<and> verify_identity 7 mismatch_reply (sample_verify_request\<lparr>vq_userId := JUndefined\<rparr>)
        initial_pstate
       = (initial_pstate,
          \<lparr>http_status = 400, body = VerifyFailed ''Missing userId or image''\<rparr>)"
proof -
  have h: "\<not> truthy (vq_userId (sample_verify_request\<lparr>vq_userId := JUndefined\<rparr>))
           \<or> \<not> truthy (vq_image (sample_verify_request\<lparr>vq_userId := JUndefined\<rparr>))"
    by simp
  show ?thesis
    using C9_verify_identity_rejects_missing_fields [OF h, of 7 mismatch_reply initial_pstate]
    by simp
qed

text \<open>\<open>POST /event\<close> with no field at all answers 200 and stores an event under the key
  \<open>undefined\<close>.\<close>

theorem C9_event_without_fields_counterexample:
  "http_status (snd (post_event 5 empty_event_request initial_pstate)) = 200
   \<and> proctoringEvents initial_pstate JUndefined = None
   \<and> proctoringEvents (fst (post_event 5 empty_event_request initial_pstate)) JUndefined
       = Some [\<lparr>eventType = JUndefined, severity = JUndefined, details = JUndefined,
                timestamp = 5\<rparr>]"
  by (simp add: post_event_def Let_def empty_event_request_def initial_pstate_def
      events_or_empty_def)

section \<open>Events of unknown severity\<close>

text \<open>The step of the loop on one key of the breakdown.\<close>

lemma snd_score_step:
  "k \<noteq> ''__proto__'' \<Longrightarrow>
     snd (score_step ev acc) k =
       (if to_property_key (eventType ev) = k
        then Some (or_zero_plus_one (object_get (snd acc) k))
        else snd acc k)"
  by (simp add: score_step_def Let_def object_set_def)

text \<open>Under a key that \<open>Object.prototype\<close> does not define, the breakdown holds the number
  of events of the log whose type converts to that key, and nothing when there is none.\<close>

lemma breakdown_counts:
  assumes "k \<noteq> ''__proto__''" and "k \<notin> set object_prototype_methods"
  shows "snd (fold score_step es (s, Map.empty)) k =
           (if filter (\<lambda>e. to_property_key (eventType e) = k) es = [] then None
            else Some (PNum (length (filter (\<lambda>e. to_property_key (eventType e) = k) es))))"
proof (induction es rule: rev_induct)
  case Nil
  show ?case by simp
next
  case (snoc e es)
  show ?case
    using assms snoc.IH
    by (simp add: snd_score_step object_get_def)
qed

text \<open>An event whose severity is none of the four leaves the score as it is, counts in
  \<open>totalEvents\<close>, and counts in the breakdown under a key that \<open>Object.prototype\<close> does
  not define.\<close>

lemma unknown_severity_event:
  assumes "severity ev \<notin> {JStr ''low'', JStr ''medium'', JStr ''high'', JStr ''critical''}"
  shows "score (computeIntegrityScore (es @ [ev])) = score (computeIntegrityScore es)
       \<and> totalEvents (computeIntegrityScore (es @ [ev]))
           = totalEvents (computeIntegrityScore es) + 1"
proof -
  have "severity_weight (severity ev) = 0"
    using assms by (simp add: severity_weight_def)
  then have "score (computeIntegrityScore (es @ [ev])) = score (computeIntegrityScore es)"
    by (simp add: score_formula total_deduction_def)
  moreover have "totalEvents (computeIntegrityScore (es @ [ev]))
           = totalEvents (computeIntegrityScore es) + 1"
    by (simp add: computeIntegrityScore_def Let_def)
  ultimately show ?thesis by simp
qed

lemma event_counted_in_breakdown:
  assumes "to_property_key (eventType ev) \<noteq> ''__proto__''"
    and "to_property_key (eventType ev) \<notin> set object_prototype_methods"
  shows "breakdown (computeIntegrityScore (es @ [ev])) (to_property_key (eventType ev))
           = Some (PNum (length
               (filter (\<lambda>e. to_property_key (eventType e) = to_property_key (eventType ev))
                  es) + 1))"
  using breakdown_counts [OF assms, of "es @ [ev]" 100]
  by (simp add: computeIntegrityScore_def Let_def)

text \<open>
  Claim C10. An event of unknown severity deducts nothing and should still be counted in
  \<open>totalEvents\<close> and in the breakdown. For an event of type \<open>__proto__\<close> the handler
  counts it in \<open>totalEvents\<close> and not in the breakdown: the read \<open>breakdown['__proto__']\<close>
  yields \<open>Object.prototype\<close> and the write is ignored, so the breakdown of a log that
  holds this one event is empty.
\<close>

theorem C10_proto_event_missing_from_breakdown:
  "body (snd (get_score ''S1''
      (record_events (JStr ''S1'') [sample_event ''__proto__'' ''info''] initial_pstate)))
     = \<lparr>score = 100, totalEvents = 1, breakdown = Map.empty\<rparr>"
  by (simp add: get_score_def events_after_record events_initial computeIntegrityScore_def
      score_step_def Let_def deduct_def object_set_def sample_event_def)

end
